theory Spec2Isabelle
  imports Complex_Main
begin

section \<open>Dates and numbers\<close>

text \<open>
  A JavaScript \<open>Date\<close> is its number of milliseconds since the epoch, an \<open>int\<close>; the
  server's local time zone is taken to be UTC and there is no daylight saving, so a day
  has \<open>24 * 60 * 60 * 1000\<close> milliseconds. A JavaScript \<open>Number\<close> holding a quantity or
  an amount of money is a \<open>rat\<close>, the value of the double. Where a payment is added to
  an invoice (\<open>addPayment\<close>, \<open>addPaymentToInvoice\<close>) the sums and differences are the
  source's double operations: the exact result rounded to the nearest double, ties to
  even (\<open>toDouble\<close>, for results in the normal range of doubles). Elsewhere the
  arithmetic is exact. \<open>NaN\<close> and the infinities are outside the model. A Mongo
  \<open>ObjectId\<close> is a \<open>nat\<close>.
\<close>

type_synonym oid = nat
type_synonym date = int

function bitLength :: "int \<Rightarrow> int" where
  \<comment> \<open>the number of binary digits of a positive integer\<close>
  "bitLength n = (if n \<le> 0 then 0 else 1 + bitLength (n div 2))"
  by pat_completeness auto
termination
  by (relation "measure nat") auto

declare bitLength.simps [simp del]

definition pow2 :: "int \<Rightarrow> rat" where
  "pow2 k = (if 0 \<le> k then 2 ^ nat k else 1 / 2 ^ nat (- k))"

definition floorLog2 :: "rat \<Rightarrow> int" where
  \<comment> \<open>for \<open>x > 0\<close>, the \<open>k\<close> with \<open>2 ^ k \<le> x < 2 ^ (k + 1)\<close>\<close>
  "floorLog2 x =
     (let k = bitLength (fst (quotient_of x)) - bitLength (snd (quotient_of x))
      in if pow2 k \<le> x then k else k - 1)"

definition roundHalfEven :: "rat \<Rightarrow> int" where
  "roundHalfEven m =
     (let f = \<lfloor>m\<rfloor>; r = m - of_int f
      in if r < 1 / 2 then f else if 1 / 2 < r then f + 1 else if even f then f else f + 1)"

definition toDouble :: "rat \<Rightarrow> rat" where
  \<comment> \<open>the nearest double: 53 significant binary digits, ties to even\<close>
  "toDouble x =
     (if x = 0 then 0
      else (let e = floorLog2 \<bar>x\<bar> - 52
            in sgn x * of_int (roundHalfEven (\<bar>x\<bar> / pow2 e)) * pow2 e))"

definition jsAdd :: "rat \<Rightarrow> rat \<Rightarrow> rat" where
  \<comment> \<open>\<open>a + b\<close> on doubles\<close>
  "jsAdd a b = toDouble (a + b)"

definition jsSub :: "rat \<Rightarrow> rat \<Rightarrow> rat" where
  \<comment> \<open>\<open>a - b\<close> on doubles\<close>
  "jsSub a b = toDouble (a - b)"

definition msPerDay :: int where
  "msPerDay = 24 * 60 * 60 * 1000"

definition days_from_civil :: "int \<Rightarrow> int \<Rightarrow> int \<Rightarrow> int" where
  \<comment> \<open>day number of the proleptic Gregorian date \<open>y-m-d\<close>, \<open>m\<close> in 1..12; day 0 is 1970-01-01\<close>
  "days_from_civil y m d =
     (let y1 = (if m \<le> 2 then y - 1 else y);
          era = y1 div 400;
          yoe = y1 - era * 400;
          doy = (153 * (if 2 < m then m - 3 else m + 9) + 2) div 5 + d - 1;
          doe = yoe * 365 + yoe div 4 - yoe div 100 + doy
      in era * 146097 + doe - 719468)"

definition civil_from_days :: "int \<Rightarrow> int \<times> int \<times> int" where
  \<comment> \<open>the inverse: (year, month in 1..12, day of month) of a day number\<close>
  "civil_from_days z =
     (let z1 = z + 719468;
          era = z1 div 146097;
          doe = z1 - era * 146097;
          yoe = (doe - doe div 1460 + doe div 36524 - doe div 146096) div 365;
          doy = doe - (365 * yoe + yoe div 4 - yoe div 100);
          mp = (5 * doy + 2) div 153;
          d = doy - (153 * mp + 2) div 5 + 1;
          m = (if mp < 10 then mp + 3 else mp - 9)
      in (if m \<le> 2 then yoe + era * 400 + 1 else yoe + era * 400, m, d))"

definition jsDate :: "int \<Rightarrow> int \<Rightarrow> int \<Rightarrow> date" where
  \<comment> \<open>\<open>new Date(year, monthIndex, day)\<close>: local midnight; a month index outside 0..11 and a
      day outside the month carry over; a year in 0..99 means 1900 + year\<close>
  "jsDate y mi d =
     (let y0 = (if 0 \<le> y \<and> y \<le> 99 then 1900 + y else y)
      in (days_from_civil (y0 + mi div 12) (mi mod 12 + 1) 1 + (d - 1)) * msPerDay)"

definition getFullYear :: "date \<Rightarrow> int" where
  "getFullYear t = fst (civil_from_days (t div msPerDay))"

definition getMonth :: "date \<Rightarrow> int" where
  \<comment> \<open>0-based, as in JavaScript\<close>
  "getMonth t = fst (snd (civil_from_days (t div msPerDay))) - 1"

definition getDate :: "date \<Rightarrow> int" where
  "getDate t = snd (snd (civil_from_days (t div msPerDay)))"

definition startOfDay :: "date \<Rightarrow> date" where
  \<comment> \<open>\<open>setHours(0, 0, 0, 0)\<close>\<close>
  "startOfDay t = (t div msPerDay) * msPerDay"

definition endOfDay :: "date \<Rightarrow> date" where
  \<comment> \<open>\<open>setHours(23, 59, 59, 999)\<close>\<close>
  "endOfDay t = startOfDay t + (msPerDay - 1)"

definition addDays :: "date \<Rightarrow> int \<Rightarrow> date" where
  \<comment> \<open>\<open>d.setDate(d.getDate() + n)\<close>\<close>
  "addDays t n = t + n * msPerDay"


section \<open>Data model (the Mongoose schemas)\<close>

datatype slot = Morning | Evening

fun slot_name :: "slot \<Rightarrow> string" where
  "slot_name Morning = ''morning''"
| "slot_name Evening = ''evening''"

record milk_item =
  mi_milkType :: oid
  mi_subcategory :: oid
  mi_quantity :: rat
  mi_pricePerUnit :: rat
  mi_totalPrice :: rat

record delivery =
  d_time :: slot
  d_milkItems :: "milk_item list"
  d_totalQuantity :: rat
  d_totalPrice :: rat

text \<open>Customer (models/Customer.js); the credentials and contact fields play no part here.\<close>

record customer =
  c_id :: oid
  c_name :: string
  c_isActive :: bool
  c_deliverySchedule :: "delivery list"
  c_totalDailyQuantity :: rat
  c_totalDailyPrice :: rat
  c_advance :: rat

text \<open>Record (models/Record.js), one daily delivery record.\<close>

record daily_record =
  r_id :: oid
  r_customer :: oid
  r_date :: date
  r_deliverySchedule :: "delivery list"
  r_totalDailyQuantity :: rat
  r_totalDailyPrice :: rat

datatype update_status = UpdPending | UpdAccepted | UpdRejected

text \<open>QuantityUpdate (models/QuantityUpdate.js).\<close>

record quantity_update =
  q_id :: oid
  q_customer :: oid
  q_date :: date
  q_time :: slot
  q_oldQuantity :: rat
  q_newQuantity :: rat
  q_difference :: rat
  q_reason :: string
  q_milkType :: oid
  q_subcategory :: oid
  q_isAccept :: bool
  q_status :: update_status
  q_lastQuantity :: rat

datatype payment_method = Cash | Online | Advance

record payment =
  p_amount :: rat
  p_paymentDate :: date
  p_paymentMethod :: payment_method
  p_transactionId :: "string option"
  p_notes :: "string option"

datatype invoice_status = Pending | PartiallyPaid | Paid | Overdue

record invoice_item =
  it_date :: date
  it_deliverySchedule :: "delivery list"
  it_totalDailyQuantity :: rat
  it_totalDailyPrice :: rat

text \<open>Invoice (models/Invoice.js).\<close>

record invoice =
  i_id :: oid
  i_customer :: oid
  i_invoiceNumber :: string
  i_startDate :: date
  i_endDate :: date
  i_totalQuantity :: rat
  i_totalAmount :: rat
  i_amountPaid :: rat
  i_dueAmount :: rat
  i_status :: invoice_status
  i_dueDate :: date
  i_items :: "invoice_item list"
  i_payments :: "payment list"

record holiday =
  h_date :: date
  h_name :: string
  h_isRecurringYearly :: bool

text \<open>
  The document store: one list per collection, in natural (insertion) order. The
  \<open>categories\<close> and \<open>subcategories\<close> collections are kept as the ids they hold, which is
  all that \<open>populate\<close> needs.
\<close>

record store =
  customers :: "customer list"
  invoices :: "invoice list"
  records :: "daily_record list"
  quantityUpdates :: "quantity_update list"
  holidays :: "holiday list"
  categories :: "oid list"
  subcategories :: "oid list"


section \<open>Collections\<close>

fun put_doc :: "('a \<Rightarrow> oid) \<Rightarrow> 'a \<Rightarrow> 'a list \<Rightarrow> 'a list" where
  \<comment> \<open>\<open>doc.save()\<close>: the document replaces the stored one of the same \<open>_id\<close>, or is inserted\<close>
  "put_doc key d [] = [d]"
| "put_doc key d (x # xs) = (if key x = key d then d # xs else x # put_doc key d xs)"

definition new_oid :: "oid list \<Rightarrow> oid" where
  \<comment> \<open>a fresh \<open>_id\<close> for a collection whose ids are given\<close>
  "new_oid ids = Suc (fold max ids 0)"

definition findCustomer :: "oid \<Rightarrow> store \<Rightarrow> customer option" where
  \<comment> \<open>\<open>Customer.findById\<close>\<close>
  "findCustomer k s = find (\<lambda>c. c_id c = k) (customers s)"

definition findInvoice :: "oid \<Rightarrow> store \<Rightarrow> invoice option" where
  \<comment> \<open>\<open>Invoice.findById\<close>\<close>
  "findInvoice k s = find (\<lambda>i. i_id i = k) (invoices s)"


section \<open>models/Invoice.js\<close>

definition invoice_pre_save :: "date \<Rightarrow> invoice \<Rightarrow> invoice" where
  \<comment> \<open>\<open>invoiceSchema.pre('save')\<close>; \<open>now\<close> is what \<open>new Date()\<close> reads\<close>
  "invoice_pre_save now ivc =
     (let ivc1 = ivc\<lparr>i_dueAmount := i_totalAmount ivc - i_amountPaid ivc\<rparr>
      in if i_dueAmount ivc1 \<le> 0 then ivc1\<lparr>i_status := Paid\<rparr>
         else if 0 < i_amountPaid ivc1 then ivc1\<lparr>i_status := PartiallyPaid\<rparr>
         else if i_dueDate ivc1 < now then ivc1\<lparr>i_status := Overdue\<rparr>
         else ivc1\<lparr>i_status := Pending\<rparr>)"

definition invoice_save :: "date \<Rightarrow> invoice \<Rightarrow> store \<Rightarrow> invoice \<times> store" where
  \<comment> \<open>\<open>invoice.save()\<close> of a document that is already stored: the hook runs, then the
      document is written; the in-memory document is the one the hook changed\<close>
  "invoice_save now ivc s =
     (let ivc1 = invoice_pre_save now ivc
      in (ivc1, s\<lparr>invoices := put_doc i_id ivc1 (invoices s)\<rparr>))"

definition invoice_create :: "date \<Rightarrow> invoice \<Rightarrow> store \<Rightarrow> string + invoice \<times> store" where
  \<comment> \<open>\<open>Invoice.create(flds)\<close>: a new document gets a fresh \<open>_id\<close> and is saved; the
      unique index on \<open>invoiceNumber\<close> rejects a number that is already stored\<close>
  "invoice_create now flds s =
     (let ivc1 = invoice_pre_save now (flds\<lparr>i_id := new_oid (map i_id (invoices s))\<rparr>)
      in if list_ex (\<lambda>x. i_invoiceNumber x = i_invoiceNumber ivc1) (invoices s)
         then Inl ''E11000 duplicate key error''
         else Inr (ivc1, s\<lparr>invoices := invoices s @ [ivc1]\<rparr>))"

definition addPayment :: "date \<Rightarrow> payment \<Rightarrow> invoice \<Rightarrow> store \<Rightarrow> invoice \<times> store" where
  \<comment> \<open>\<open>invoiceSchema.methods.addPayment\<close>\<close>
  "addPayment now paymentDetails ivc s =
     invoice_save now
       (ivc\<lparr>i_payments := i_payments ivc @ [paymentDetails],
            i_amountPaid := jsAdd (i_amountPaid ivc) (p_amount paymentDetails)\<rparr>) s"

definition derived_status :: "rat \<Rightarrow> rat \<Rightarrow> date \<Rightarrow> date \<Rightarrow> invoice_status" where
  \<comment> \<open>the priority rule in the specification's words: dueAmount, amountPaid, dueDate, now\<close>
  "derived_status due paid dueDate now =
     (if due \<le> 0 then Paid
      else if 0 < paid then PartiallyPaid
      else if dueDate < now then Overdue
      else Pending)"



section \<open>models/Customer.js\<close>

definition recalc_item :: "milk_item \<Rightarrow> milk_item" where
  "recalc_item item = item\<lparr>mi_totalPrice := mi_quantity item * mi_pricePerUnit item\<rparr>"

definition recalc_delivery :: "delivery \<Rightarrow> delivery" where
  "recalc_delivery d =
     (let milkItems = map recalc_item (d_milkItems d)
      in d\<lparr>d_milkItems := milkItems,
            d_totalQuantity := foldl (\<lambda>sum item. sum + mi_quantity item) 0 milkItems,
            d_totalPrice := foldl (\<lambda>sum item. sum + mi_totalPrice item) 0 milkItems\<rparr>)"

definition customer_pre_save :: "customer \<Rightarrow> string + customer" where
  \<comment> \<open>\<open>customerSchema.pre('save')\<close>: one delivery per time slot, then the totals; the hooks of
      the embedded delivery and milk item schemas compute the same totals\<close>
  "customer_pre_save c =
     (let times = map d_time (c_deliverySchedule c)
      in if length times \<noteq> length (remdups times)
         then Inl ''Cannot have multiple delivery schedules for the same time slot''
         else (let sched = map recalc_delivery (c_deliverySchedule c)
               in Inr (c\<lparr>c_deliverySchedule := sched,
                         c_totalDailyQuantity :=
                           foldl (\<lambda>sum delivery. sum + d_totalQuantity delivery) 0 sched,
                         c_totalDailyPrice :=
                           foldl (\<lambda>sum delivery. sum + d_totalPrice delivery) 0 sched\<rparr>)))"

definition customer_invalid :: "customer \<Rightarrow> bool" where
  \<comment> \<open>the validators \<open>min: 0\<close> of the milk item schema: some quantity, unit price or total
      price of the document is negative\<close>
  "customer_invalid c =
     list_ex (\<lambda>d. list_ex (\<lambda>item. mi_quantity item < 0 \<or> mi_pricePerUnit item < 0 \<or>
                                   mi_totalPrice item < 0) (d_milkItems d))
       (c_deliverySchedule c)"

definition customer_save :: "customer \<Rightarrow> store \<Rightarrow> string + customer \<times> store" where
  \<comment> \<open>\<open>customer.save()\<close>: validation runs first, then the \<open>pre('save')\<close> hook, then the
      document is written\<close>
  "customer_save c s =
     (if customer_invalid c then Inl ''Customer validation failed''
      else (case customer_pre_save c of
              Inl e \<Rightarrow> Inl e
            | Inr c1 \<Rightarrow> Inr (c1, s\<lparr>customers := put_doc c_id c1 (customers s)\<rparr>)))"


section \<open>controllers/invoiceController.js\<close>

text \<open>
  \<open>generateInvoiceNumber\<close> reads the clock and the newest stored invoice and writes
  nothing; the number it returns is the parameter \<open>genNo\<close> of the functions below, applied
  to the clock and the invoices collection. Request bodies carry JSON numbers and
  booleans, so \<open>parseInt\<close> of a month or year is the number itself, and \<open>!month\<close> holds
  of 0.
\<close>

record gen_request =
  g_id :: oid
  g_month :: int
  g_year :: int
  g_updateExisting :: bool

datatype gen_response =
    GenBadRequest string
  | GenConflict string oid string
  | GenNotFound string
  | GenUpdated invoice
  | GenCreated invoice rat
  | GenServerError string

definition findOverlapping :: "oid \<Rightarrow> date \<Rightarrow> date \<Rightarrow> store \<Rightarrow> invoice option" where
  \<comment> \<open>\<open>Invoice.findOne({customer, startDate: {$lte: endDate}, endDate: {$gte: startDate}})\<close>\<close>
  "findOverlapping cid startDate endDate s =
     find (\<lambda>i. i_customer i = cid \<and> i_startDate i \<le> endDate \<and> startDate \<le> i_endDate i)
       (invoices s)"

definition record_item :: "daily_record \<Rightarrow> invoice_item" where
  "record_item r =
     \<lparr>it_date = r_date r, it_deliverySchedule = r_deliverySchedule r,
      it_totalDailyQuantity = r_totalDailyQuantity r, it_totalDailyPrice = r_totalDailyPrice r\<rparr>"

definition createNewInvoice ::
  "(date \<Rightarrow> invoice list \<Rightarrow> string) \<Rightarrow> date \<Rightarrow> customer \<Rightarrow> date \<Rightarrow> date \<Rightarrow> rat \<Rightarrow> rat \<Rightarrow>
   invoice_item list \<Rightarrow> store \<Rightarrow> (string + invoice \<times> rat) \<times> store" where
  \<comment> \<open>the branch "Create new invoice", the same text in \<open>generateCustomerMonthlyInvoice\<close> and in
      \<open>generateBatchMonthlyInvoices\<close>; \<open>Inl\<close> is the exception thrown, with the store as it
      is at that moment\<close>
  "createNewInvoice genNo now customer startDate endDate totalQuantity totalAmount items s =
     (let invoiceNumber = genNo now (invoices s);
          dueDate = addDays endDate 15;
          (dueAmount, amountPaid, payments, advanceUsed, saved) =
            (if c_advance customer \<noteq> 0 \<and> 0 < c_advance customer then
               (if totalAmount \<le> c_advance customer
                then (0, totalAmount, [\<lparr>p_amount = totalAmount, p_paymentDate = now, p_paymentMethod = Advance,
            p_transactionId = None,
            p_notes = Some ''Advance applied from previous overpayment''\<rparr>], totalAmount,
                      Some (customer_save
                              (customer\<lparr>c_advance := c_advance customer - totalAmount\<rparr>) s))
                else (totalAmount - c_advance customer, c_advance customer,
                      [\<lparr>p_amount = c_advance customer, p_paymentDate = now, p_paymentMethod = Advance,
            p_transactionId = None,
            p_notes = Some ''Advance applied from previous overpayment''\<rparr>], c_advance customer,
                      Some (customer_save (customer\<lparr>c_advance := 0\<rparr>) s)))
             else (totalAmount, 0, [], 0, None))
      in case (case saved of None \<Rightarrow> Inr s | Some (Inl e) \<Rightarrow> Inl e | Some (Inr (c1, s1)) \<Rightarrow> Inr s1) of
           Inl e \<Rightarrow> (Inl e, s)
         | Inr s1 \<Rightarrow>
             (let status = (if totalAmount \<le> amountPaid then Paid
                            else if 0 < amountPaid then PartiallyPaid else Pending)
              in case invoice_create now
                        \<lparr>i_id = 0, i_customer = c_id customer, i_invoiceNumber = invoiceNumber,
                         i_startDate = startDate, i_endDate = endDate,
                         i_totalQuantity = totalQuantity, i_totalAmount = totalAmount,
                         i_amountPaid = amountPaid, i_dueAmount = dueAmount, i_status = status,
                         i_dueDate = dueDate, i_items = items, i_payments = payments\<rparr> s1 of
                   Inl e \<Rightarrow> (Inl e, s1)
                 | Inr (ivc, s2) \<Rightarrow>
                     (let (ivc1, s3) = invoice_save now ivc s2
                      in (Inr (ivc1, advanceUsed), s3))))"

definition updateExistingInvoice ::
  "date \<Rightarrow> invoice \<Rightarrow> date \<Rightarrow> rat \<Rightarrow> rat \<Rightarrow> invoice_item list \<Rightarrow> store \<Rightarrow> invoice \<times> store" where
  \<comment> \<open>the branch "Update existing invoice", the same text in both generators\<close>
  "updateExistingInvoice now existingInvoice endDate totalQuantity totalAmount items s =
     invoice_save now
       (existingInvoice\<lparr>i_totalQuantity := totalQuantity, i_totalAmount := totalAmount,
                        i_items := items,
                        i_dueAmount := totalAmount - i_amountPaid existingInvoice,
                        i_endDate := endDate\<rparr>) s"

definition monthRecords :: "oid \<Rightarrow> (date \<Rightarrow> bool) \<Rightarrow> store \<Rightarrow> daily_record list" where
  \<comment> \<open>\<open>Record.find({customer, date: range}).sort({date: 1})\<close>\<close>
  "monthRecords cid inRange s =
     sort_key r_date (filter (\<lambda>r. r_customer r = cid \<and> inRange (r_date r)) (records s))"

definition generateCustomerMonthlyInvoice ::
  "(date \<Rightarrow> invoice list \<Rightarrow> string) \<Rightarrow> date \<Rightarrow> gen_request \<Rightarrow> store \<Rightarrow> gen_response \<times> store" where
  "generateCustomerMonthlyInvoice genNo now rq s =
     (if g_month rq = 0 \<or> g_year rq = 0 then (GenBadRequest ''Month and year are required'', s)
      else if g_month rq < 1 \<or> 12 < g_month rq then (GenBadRequest ''Invalid month'', s)
      else
        (let startDate = jsDate (g_year rq) (g_month rq - 1) 1;
             endDate = jsDate (g_year rq) (g_month rq) 0
         in case findCustomer (g_id rq) s of
              None \<Rightarrow> (GenNotFound ''Customer not found'', s)
            | Some customer \<Rightarrow>
                (let existingInvoice = findOverlapping (g_id rq) startDate endDate s;
                     conflict =
                       (case existingInvoice of
                          Some existing \<Rightarrow>
                            (if \<not> g_updateExisting rq
                             then Some (GenConflict ''Invoice already exists for this period''
                                          (i_id existing) (i_invoiceNumber existing))
                             else None)
                        | None \<Rightarrow> None)
                 in case conflict of
                      Some response \<Rightarrow> (response, s)
                    | None \<Rightarrow>
                      (let recs = monthRecords (g_id rq)
                                    (\<lambda>d. startDate \<le> d \<and> d < jsDate (g_year rq) (g_month rq) 1) s
                       in if length recs = 0
                          then (GenNotFound ''No records found for this period'', s)
                          else
                            (let items = map record_item recs;
                                 totalQuantity =
                                   foldl (\<lambda>a r. a + r_totalDailyQuantity r) 0 recs;
                                 totalAmount = foldl (\<lambda>a r. a + r_totalDailyPrice r) 0 recs;
                                 createNew =
                                   (case createNewInvoice genNo now customer startDate endDate
                                           totalQuantity totalAmount items s of
                                      (Inl e, s1) \<Rightarrow> (GenServerError e, s1)
                                    | (Inr (ivc, advanceUsed), s1) \<Rightarrow>
                                        (GenCreated ivc advanceUsed, s1))
                             in case existingInvoice of
                                  Some existing \<Rightarrow>
                                    (if g_updateExisting rq
                                     then (let (ivc, s1) =
                                                 updateExistingInvoice now existing endDate
                                                   totalQuantity totalAmount items s
                                           in (GenUpdated ivc, s1))
                                     else createNew)
                                | None \<Rightarrow> createNew)))))"

record batch_request =
  b_month :: int
  b_year :: int
  b_updateExisting :: bool

record created_entry =
  ce_customer :: oid
  ce_name :: string
  ce_invoiceId :: oid
  ce_invoiceNumber :: string
  ce_totalAmount :: rat
  ce_advanceUsed :: rat

record updated_entry =
  ue_customer :: oid
  ue_name :: string
  ue_invoiceId :: oid
  ue_invoiceNumber :: string
  ue_totalAmount :: rat

record failed_entry =
  fe_customer :: oid
  fe_name :: string
  fe_reason :: string
  fe_invoiceNumber :: "string option"

record batch_results =
  created :: "created_entry list"
  updated :: "updated_entry list"
  failed :: "failed_entry list"

datatype batch_response =
    BatchBadRequest string
  | BatchTooEarly int
  | BatchDone nat batch_results

definition batchCustomer ::
  "(date \<Rightarrow> invoice list \<Rightarrow> string) \<Rightarrow> date \<Rightarrow> date \<Rightarrow> date \<Rightarrow> bool \<Rightarrow> customer \<Rightarrow>
   batch_results \<times> store \<Rightarrow> batch_results \<times> store" where
  \<comment> \<open>the body of the loop over the customers, with its own \<open>try\<close>/\<open>catch\<close>\<close>
  "batchCustomer genNo now startDate endDate updateExisting customer rs =
     (let (results, s) = rs;
          fail = (\<lambda>reason no s1.
                    (results\<lparr>failed := failed results @
                       [\<lparr>fe_customer = c_id customer, fe_name = c_name customer,
                         fe_reason = reason, fe_invoiceNumber = no\<rparr>]\<rparr>, s1));
          existingInvoice = findOverlapping (c_id customer) startDate endDate s;
          conflict =
            (case existingInvoice of
               Some existing \<Rightarrow>
                 (if \<not> updateExisting
                  then Some (fail ''Invoice already exists for this period''
                               (Some (i_invoiceNumber existing)) s)
                  else None)
             | None \<Rightarrow> None)
      in case conflict of
           Some r \<Rightarrow> r
         | None \<Rightarrow>
           (let recs = monthRecords (c_id customer) (\<lambda>d. startDate \<le> d \<and> d \<le> endDate) s
            in if length recs = 0 then fail ''No records found for this period'' None s
               else
                 (let items = map record_item recs;
                      totalQuantity = foldl (\<lambda>a r. a + r_totalDailyQuantity r) 0 recs;
                      totalAmount = foldl (\<lambda>a r. a + r_totalDailyPrice r) 0 recs;
                      createNew =
                        (case createNewInvoice genNo now customer startDate endDate
                                totalQuantity totalAmount items s of
                           (Inl e, s1) \<Rightarrow> fail e None s1
                         | (Inr (ivc, advanceUsed), s1) \<Rightarrow>
                             (results\<lparr>created := created results @
                                [\<lparr>ce_customer = c_id customer, ce_name = c_name customer,
                                  ce_invoiceId = i_id ivc,
                                  ce_invoiceNumber = i_invoiceNumber ivc,
                                  ce_totalAmount = i_totalAmount ivc,
                                  ce_advanceUsed = advanceUsed\<rparr>]\<rparr>, s1))
                  in case existingInvoice of
                       Some existing \<Rightarrow>
                         (if updateExisting
                          then (let (ivc, s1) = updateExistingInvoice now existing endDate
                                                  totalQuantity totalAmount items s
                                in (results\<lparr>updated := updated results @
                                      [\<lparr>ue_customer = c_id customer, ue_name = c_name customer,
                                        ue_invoiceId = i_id ivc,
                                        ue_invoiceNumber = i_invoiceNumber ivc,
                                        ue_totalAmount = i_totalAmount ivc\<rparr>]\<rparr>, s1))
                          else createNew)
                     | None \<Rightarrow> createNew)))"

definition generateBatchMonthlyInvoices ::
  "(date \<Rightarrow> invoice list \<Rightarrow> string) \<Rightarrow> date \<Rightarrow> batch_request \<Rightarrow> store \<Rightarrow> batch_response \<times> store" where
  "generateBatchMonthlyInvoices genNo now rq s =
     (if b_month rq = 0 \<or> b_year rq = 0 then (BatchBadRequest ''Month and year are required'', s)
      else
        (let isCurrentMonth = (b_month rq = getMonth now + 1 \<and> b_year rq = getFullYear now);
             lastDayOfMonth = getDate (jsDate (b_year rq) (b_month rq) 0);
             currentDay = getDate now
         in if isCurrentMonth \<and> currentDay < lastDayOfMonth - 2
            then (BatchTooEarly (lastDayOfMonth - currentDay), s)
            else if b_month rq < 1 \<or> 12 < b_month rq then (BatchBadRequest ''Invalid month'', s)
            else
              (let startDate = jsDate (b_year rq) (b_month rq - 1) 1;
                   endDate = jsDate (b_year rq) (b_month rq) 0;
                   custs = filter c_isActive (customers s);
                   (results, s1) =
                     foldl (\<lambda>rs customer.
                              batchCustomer genNo now startDate endDate (b_updateExisting rq)
                                customer rs)
                       (\<lparr>created = [], updated = [], failed = []\<rparr>, s) custs
               in (BatchDone (length custs) results, s1))))"

datatype status_response =
    StatusBadRequest string
  | StatusNotFound string
  | StatusOk invoice

fun status_of_string :: "string \<Rightarrow> invoice_status option" where
  \<comment> \<open>membership in \<open>['pending', 'partially_paid', 'paid', 'overdue']\<close>\<close>
  "status_of_string st =
     (if st = ''pending'' then Some Pending
      else if st = ''partially_paid'' then Some PartiallyPaid
      else if st = ''paid'' then Some Paid
      else if st = ''overdue'' then Some Overdue
      else None)"

definition updateInvoiceStatus :: "date \<Rightarrow> oid \<Rightarrow> string \<Rightarrow> store \<Rightarrow> status_response \<times> store" where
  "updateInvoiceStatus now k st s =
     (case status_of_string st of
        None \<Rightarrow> (StatusBadRequest ''Invalid status'', s)
      | Some status \<Rightarrow>
          (case findInvoice k s of
             None \<Rightarrow> (StatusNotFound ''Invoice not found'', s)
           | Some invoice \<Rightarrow>
               (let (ivc, s1) = invoice_save now (invoice\<lparr>i_status := status\<rparr>) s
                in (StatusOk ivc, s1))))"

text \<open>
  In \<open>addPaymentToInvoice\<close> the transaction id made up for a payment that has none reads
  the clock, the customer and the customer's invoices and writes nothing; it is the
  parameter \<open>genTxn\<close>. \<open>None\<close> stands for a field the request body does not have.
\<close>

record payment_request =
  pr_amount :: "rat option"
  pr_paymentMethod :: "string option"
  pr_transactionId :: "string option"
  pr_notes :: "string option"

datatype payment_response =
    PaymentBadRequest string
  | PaymentNotFound string
  | PaymentOk invoice
  | PaymentServerError string

fun method_of_string :: "string \<Rightarrow> payment_method option" where
  \<comment> \<open>the \<open>enum\<close> of \<open>payments.paymentMethod\<close>\<close>
  "method_of_string m =
     (if m = ''cash'' then Some Cash
      else if m = ''online'' then Some Online
      else if m = ''advance'' then Some Advance
      else None)"

definition truthy :: "string option \<Rightarrow> bool" where
  \<comment> \<open>a string field is truthy when it is there and not empty\<close>
  "truthy x = (case x of None \<Rightarrow> False | Some str \<Rightarrow> str \<noteq> [])"

definition paymentMethodName :: "string option \<Rightarrow> string" where
  \<comment> \<open>\<open>paymentMethod || 'cash'\<close>\<close>
  "paymentMethodName pm = (case pm of None \<Rightarrow> ''cash'' | Some m \<Rightarrow> if m = [] then ''cash'' else m)"

definition addPaymentToInvoice ::
  "(date \<Rightarrow> customer \<Rightarrow> invoice list \<Rightarrow> string) \<Rightarrow> date \<Rightarrow> oid \<Rightarrow> payment_request \<Rightarrow> store \<Rightarrow>
   payment_response \<times> store" where
  "addPaymentToInvoice genTxn now k rq s =
     (case pr_amount rq of
        None \<Rightarrow> (PaymentBadRequest ''Valid payment amount is required'', s)
      | Some amount \<Rightarrow>
        if amount = 0 \<or> amount \<le> 0
        then (PaymentBadRequest ''Valid payment amount is required'', s)
        else
          (case findInvoice k s of
             None \<Rightarrow> (PaymentNotFound ''Invoice not found'', s)
           | Some invoice \<Rightarrow>
             (let populated = findCustomer (i_customer invoice) s;
                  needsId = (\<not> truthy (pr_transactionId rq) \<and> pr_paymentMethod rq \<noteq> Some ''cash'')
              in if needsId \<and> populated = None
                 then (PaymentServerError ''Cannot read properties of null'', s)
                 else
                   (let finalTransactionId =
                          (case populated of
                             Some c \<Rightarrow>
                               (if needsId
                                then Some (genTxn now c
                                             (filter (\<lambda>i. i_customer i = c_id c) (invoices s)))
                                else pr_transactionId rq)
                           | None \<Rightarrow> pr_transactionId rq);
                        methodName = paymentMethodName (pr_paymentMethod rq);
                        overpaidAmount = (if i_dueAmount invoice < amount
                                          then jsSub amount (i_dueAmount invoice) else 0);
                        paymentToApply = min amount (i_dueAmount invoice)
                    in case method_of_string methodName of
                         None \<Rightarrow> (PaymentServerError ''Invoice validation failed'', s)
                       | Some m \<Rightarrow>
                           (let (updatedInvoice, s1) =
                                  addPayment now
                                    \<lparr>p_amount = paymentToApply, p_paymentDate = now,
                                     p_paymentMethod = m,
                                     p_transactionId = finalTransactionId,
                                     p_notes = pr_notes rq\<rparr> invoice s
                            in if 0 < overpaidAmount
                               then (case populated of
                                       None \<Rightarrow>
                                         (PaymentServerError ''Cannot read properties of null'', s1)
                                     | Some c0 \<Rightarrow>
                                         (case findCustomer (c_id c0) s1 of
                                            None \<Rightarrow>
                                              (PaymentServerError
                                                 ''Cannot read properties of null'', s1)
                                          | Some customer \<Rightarrow>
                                              (case customer_save
                                                      (customer\<lparr>c_advance :=
                                                         jsAdd
                                                           (if c_advance customer \<noteq> 0
                                                            then c_advance customer else 0)
                                                           overpaidAmount\<rparr>) s1 of
                                                 Inl e \<Rightarrow> (PaymentServerError e, s1)
                                               | Inr (c1, s2) \<Rightarrow> (PaymentOk updatedInvoice, s2))))
                               else (PaymentOk updatedInvoice, s1))))))"


section \<open>controllers/customerController.js\<close>

datatype advance_response =
    AdvanceBadRequest string
  | AdvanceNotFound string
  | AdvanceOk customer
  | AdvanceServerError string

definition createAdvancePayment :: "oid \<Rightarrow> rat \<Rightarrow> store \<Rightarrow> advance_response \<times> store" where
  \<comment> \<open>the \<open>tryCatch\<close> wrapper answers 500 to whatever is thrown\<close>
  "createAdvancePayment customerId amount s =
     (case findCustomer customerId s of
        None \<Rightarrow> (AdvanceServerError ''Cannot read properties of null'', s)
      | Some customer \<Rightarrow>
          (case customer_save (customer\<lparr>c_advance := c_advance customer + amount\<rparr>) s of
             Inl e \<Rightarrow> (AdvanceServerError e, s)
           | Inr (c1, s1) \<Rightarrow> (AdvanceOk c1, s1)))"

definition updateAdvanceAmount :: "oid \<Rightarrow> rat option \<Rightarrow> store \<Rightarrow> advance_response \<times> store" where
  \<comment> \<open>\<open>None\<close> is an amount whose \<open>Number(amount)\<close> is \<open>NaN\<close>\<close>
  "updateAdvanceAmount k amount s =
     (case amount of
        None \<Rightarrow> (AdvanceBadRequest ''Invalid amount'', s)
      | Some numericAmount \<Rightarrow>
          if numericAmount < 0 then (AdvanceBadRequest ''Invalid amount'', s)
          else
            (case findCustomer k s of
               None \<Rightarrow> (AdvanceNotFound ''Customer not found'', s)
             | Some customer \<Rightarrow>
                 (case customer_save (customer\<lparr>c_advance := numericAmount\<rparr>) s of
                    Inl e \<Rightarrow> (AdvanceServerError e, s)
                  | Inr (c1, s1) \<Rightarrow> (AdvanceOk c1, s1))))"

definition clearAdvanceAmount :: "oid \<Rightarrow> store \<Rightarrow> advance_response \<times> store" where
  "clearAdvanceAmount k s =
     (case findCustomer k s of
        None \<Rightarrow> (AdvanceNotFound ''Customer not found'', s)
      | Some customer \<Rightarrow>
          (case customer_save (customer\<lparr>c_advance := 0\<rparr>) s of
             Inl e \<Rightarrow> (AdvanceServerError e, s)
           | Inr (c1, s1) \<Rightarrow> (AdvanceOk c1, s1)))"


section \<open>controllers/recordController.js\<close>

definition checkIfHoliday :: "date \<Rightarrow> store \<Rightarrow> holiday option" where
  \<comment> \<open>the holiday found, if any: \<open>isHoliday\<close> is \<open>\<noteq> None\<close>, \<open>holidayDetails\<close> the value; a
      yearly holiday is reported with the date asked for\<close>
  "checkIfHoliday d s =
     (let checkDate = startOfDay d;
          currentMonth = getMonth checkDate;
          currentDay = getDate checkDate
      in case find (\<lambda>h. checkDate \<le> h_date h \<and> h_date h < checkDate + 24 * 60 * 60 * 1000 \<and>
                        \<not> h_isRecurringYearly h) (holidays s) of
           Some nonRecurringHoliday \<Rightarrow> Some nonRecurringHoliday
         | None \<Rightarrow>
             (case find (\<lambda>h. getMonth (h_date h) = currentMonth \<and> getDate (h_date h) = currentDay)
                     (filter h_isRecurringYearly (holidays s)) of
                Some h \<Rightarrow> Some (h\<lparr>h_date := checkDate\<rparr>)
              | None \<Rightarrow> None))"

datatype daily_response =
    DailyHoliday string holiday
  | DailyCreated nat "daily_record list"
  | DailyError string

definition array_isAccept :: "quantity_update list \<Rightarrow> bool option" where
  \<comment> \<open>\<open>updates.isAccept\<close>, where \<open>updates\<close> is the array that \<open>QuantityUpdate.find\<close> resolves
      to: an array has no property \<open>isAccept\<close>, the value is \<open>undefined\<close> (\<open>None\<close>)\<close>
  "array_isAccept updates = None"

definition effectiveQuantity :: "quantity_update list \<Rightarrow> delivery \<Rightarrow> milk_item \<Rightarrow> rat" where
  \<comment> \<open>\<open>update ? update.newQuantity : milkItem.quantity\<close>\<close>
  "effectiveQuantity updates delivery milkItem =
     (case find (\<lambda>u. q_time u = d_time delivery \<and> q_milkType u = mi_milkType milkItem \<and>
                      q_subcategory u = mi_subcategory milkItem) updates of
        Some update \<Rightarrow> q_newQuantity update
      | None \<Rightarrow> mi_quantity milkItem)"

definition recordMilkItem :: "quantity_update list \<Rightarrow> delivery \<Rightarrow> milk_item \<Rightarrow> milk_item" where
  "recordMilkItem updates delivery milkItem =
     (let quantity = effectiveQuantity updates delivery milkItem;
          pricePerUnit = mi_pricePerUnit milkItem;
          totalPrice = quantity * pricePerUnit
      in \<lparr>mi_milkType = mi_milkType milkItem, mi_subcategory = mi_subcategory milkItem,
          mi_quantity = quantity, mi_pricePerUnit = pricePerUnit, mi_totalPrice = totalPrice\<rparr>)"

definition recordDelivery :: "quantity_update list \<Rightarrow> delivery \<Rightarrow> delivery" where
  "recordDelivery updates delivery =
     (let recordMilkItems = map (recordMilkItem updates delivery) (d_milkItems delivery)
      in \<lparr>d_time = d_time delivery, d_milkItems = recordMilkItems,
          d_totalQuantity = foldl (\<lambda>a item. a + mi_quantity item) 0 recordMilkItems,
          d_totalPrice = foldl (\<lambda>a item. a + mi_totalPrice item) 0 recordMilkItems\<rparr>)"

definition record_create :: "daily_record \<Rightarrow> store \<Rightarrow> string + daily_record \<times> store" where
  \<comment> \<open>\<open>Record.create(flds)\<close>: the validators \<open>min: 0\<close> of a milk item, then the unique index on
      (date, customer)\<close>
  "record_create flds s =
     (if list_ex (\<lambda>d. list_ex (\<lambda>item. mi_quantity item < 0 \<or> mi_pricePerUnit item < 0 \<or>
                                        mi_totalPrice item < 0) (d_milkItems d))
           (r_deliverySchedule flds)
      then Inl ''Record validation failed''
      else if list_ex (\<lambda>r. r_date r = r_date flds \<and> r_customer r = r_customer flds) (records s)
      then Inl ''E11000 duplicate key error''
      else (let r = flds\<lparr>r_id := new_oid (map r_id (records s))\<rparr>
            in Inr (r, s\<lparr>records := records s @ [r]\<rparr>)))"

fun dailyLoop ::
  "date \<Rightarrow> customer list \<Rightarrow> daily_record list \<times> store \<Rightarrow> (string + daily_record list) \<times> store" where
  \<comment> \<open>the loop over the customers; \<open>Inl\<close> is an exception, which leaves the loop with the
      store as it is at that moment\<close>
  "dailyLoop today [] (recs, s) = (Inr recs, s)"
| "dailyLoop today (customer # rest) (recs, s) =
     (case find (\<lambda>r. r_customer r = c_id customer \<and> r_date r = today) (records s) of
        Some existingRecord \<Rightarrow> dailyLoop today rest (recs, s)
      | None \<Rightarrow>
          (let updates = filter (\<lambda>u. q_customer u = c_id customer \<and> startOfDay today \<le> q_date u \<and>
                                      q_date u \<le> endOfDay today) (quantityUpdates s)
           in if array_isAccept updates = Some False then dailyLoop today rest (recs, s)
              else
                (let recordDeliverySchedule =
                       map (recordDelivery updates) (c_deliverySchedule customer);
                     totalDailyQuantity =
                       foldl (\<lambda>a d. a + d_totalQuantity d) 0 recordDeliverySchedule;
                     totalDailyPrice = foldl (\<lambda>a d. a + d_totalPrice d) 0 recordDeliverySchedule
                 in case record_create
                           \<lparr>r_id = 0, r_customer = c_id customer, r_date = today,
                            r_deliverySchedule = recordDeliverySchedule,
                            r_totalDailyQuantity = totalDailyQuantity,
                            r_totalDailyPrice = totalDailyPrice\<rparr> s of
                      Inl e \<Rightarrow> (Inl e, s)
                    | Inr (r, s1) \<Rightarrow> dailyLoop today rest (recs @ [r], s1))))"

definition createDailyRecords :: "date \<Rightarrow> store \<Rightarrow> daily_response \<times> store" where
  \<comment> \<open>an exception in the loop is answered by 500; what the loop stored before stays stored\<close>
  "createDailyRecords now s =
     (let today = startOfDay now
      in case checkIfHoliday today s of
           Some h \<Rightarrow> (DailyHoliday (h_name h) h, s)
         | None \<Rightarrow>
             (case dailyLoop today (filter c_isActive (customers s)) ([], s) of
                (Inr recs, s1) \<Rightarrow> (DailyCreated (length recs) recs, s1)
              | (Inl e, s1) \<Rightarrow> (DailyError e, s1)))"


section \<open>controllers/quantityUpdateController.js\<close>

text \<open>
  \<open>None\<close> stands for a field the request body does not have; the date of the request is
  the value of \<open>new Date(date)\<close>.
\<close>

record quantity_request =
  qr_customerId :: "oid option"
  qr_date :: "date option"
  qr_time :: "string option"
  qr_milkType :: "oid option"
  qr_subcategory :: "oid option"
  qr_newQuantity :: "rat option"
  qr_reason :: "string option"
  qr_isAccept :: "bool option"

datatype quantity_response =
    QuantityBadRequest string
  | QuantityNotFound string
  | QuantityOk quantity_update "delivery list"

fun update_first :: "('a \<Rightarrow> bool) \<Rightarrow> ('a \<Rightarrow> 'a) \<Rightarrow> 'a list \<Rightarrow> 'a list" where
  \<comment> \<open>assignment to the element that \<open>Array.prototype.find\<close> returned\<close>
  "update_first P f [] = []"
| "update_first P f (x # xs) = (if P x then f x # xs else x # update_first P f xs)"

definition updateCustomerQuantity :: "quantity_request \<Rightarrow> store \<Rightarrow> quantity_response \<times> store" where
  "updateCustomerQuantity rq s =
     (case (qr_customerId rq, qr_date rq, qr_milkType rq, qr_subcategory rq, qr_newQuantity rq) of
        (Some customerId, Some date, Some milkType, Some subcategory, Some newQuantity) \<Rightarrow>
         (if \<not> truthy (qr_time rq) \<or> \<not> truthy (qr_reason rq)
          then (QuantityBadRequest ''Please provide all required fields'', s)
          else
            (let time = (case qr_time rq of Some t \<Rightarrow> t | None \<Rightarrow> []);
                 reason = (case qr_reason rq of Some r \<Rightarrow> r | None \<Rightarrow> [])
             in case findCustomer customerId s of
                  None \<Rightarrow> (QuantityNotFound ''Customer not found'', s)
                | Some customer \<Rightarrow>
                    (let isDelivery = (\<lambda>d. slot_name (d_time d) = time);
                         isItem = (\<lambda>item. mi_milkType item \<in> set (categories s) \<and>
                                     mi_milkType item = milkType \<and>
                                     mi_subcategory item \<in> set (subcategories s) \<and>
                                     mi_subcategory item = subcategory)
                     in case find isDelivery (c_deliverySchedule customer) of
                          None \<Rightarrow> (QuantityNotFound ''No delivery schedule found for time'', s)
                        | Some delivery \<Rightarrow>
                            (case find isItem (d_milkItems delivery) of
                               None \<Rightarrow>
                                 (QuantityNotFound
                                    ''Milk item not found for the given type and subcategory'', s)
                             | Some milkItem \<Rightarrow>
                                 (let originalQuantity = mi_quantity milkItem;
                                      difference = newQuantity - originalQuantity;
                                      setItem = (\<lambda>item. item\<lparr>mi_quantity := newQuantity,
                                                   mi_totalPrice :=
                                                     newQuantity * mi_pricePerUnit item\<rparr>);
                                      setDelivery =
                                        (\<lambda>d. let items = update_first isItem setItem (d_milkItems d)
                                              in d\<lparr>d_milkItems := items,
                                                    d_totalQuantity :=
                                                      foldl (\<lambda>sum item. sum + mi_quantity item)
                                                        0 items,
                                                    d_totalPrice :=
                                                      foldl (\<lambda>sum item. sum + mi_totalPrice item)
                                                        0 items\<rparr>);
                                      inMemorySchedule =
                                        update_first isDelivery setDelivery
                                          (c_deliverySchedule customer)
                                  in case find (\<lambda>u. q_customer u = customerId \<and> q_date u = date \<and>
                                                     slot_name (q_time u) = time \<and>
                                                     q_milkType u = milkType \<and>
                                                     q_subcategory u = subcategory)
                                            (quantityUpdates s) of
                                       Some existingUpdate \<Rightarrow>
                                         (let update =
                                                existingUpdate\<lparr>q_oldQuantity := originalQuantity,
                                                  q_newQuantity := newQuantity,
                                                  q_difference := difference,
                                                  q_reason := reason,
                                                  q_status := UpdPending,
                                                  q_isAccept := False\<rparr>
                                          in (QuantityOk update inMemorySchedule,
                                              s\<lparr>quantityUpdates :=
                                                   put_doc q_id update (quantityUpdates s)\<rparr>))
                                     | None \<Rightarrow>
                                         (let update =
                                                \<lparr>q_id = new_oid (map q_id (quantityUpdates s)),
                                                 q_customer = customerId, q_date = date,
                                                 q_time = d_time delivery,
                                                 q_oldQuantity = originalQuantity,
                                                 q_newQuantity = newQuantity,
                                                 q_difference = difference, q_reason = reason,
                                                 q_milkType = milkType,
                                                 q_subcategory = subcategory,
                                                 q_isAccept =
                                                   (case qr_isAccept rq of Some b \<Rightarrow> b
                                                    | None \<Rightarrow> False),
                                                 q_status = UpdPending, q_lastQuantity = 0\<rparr>
                                          in (QuantityOk update inMemorySchedule,
                                              s\<lparr>quantityUpdates :=
                                                   quantityUpdates s @ [update]\<rparr>)))))))
      | _ \<Rightarrow> (QuantityBadRequest ''Please provide all required fields'', s))"


section \<open>Notions used in the statements and proofs\<close>

definition recordsFor :: "oid \<Rightarrow> date \<Rightarrow> store \<Rightarrow> daily_record list" where
  \<comment> \<open>the stored daily records of a customer for a date\<close>
  "recordsFor cid d s = filter (\<lambda>r. r_customer r = cid \<and> r_date r = d) (records s)"

definition dailyFields :: "date \<Rightarrow> customer \<Rightarrow> store \<Rightarrow> daily_record" where
  \<comment> \<open>the fields that the loop of \<open>createDailyRecords\<close> passes to \<open>Record.create\<close>\<close>
  "dailyFields today customer s =
     (let updates = filter (\<lambda>u. q_customer u = c_id customer \<and> startOfDay today \<le> q_date u \<and>
                                 q_date u \<le> endOfDay today) (quantityUpdates s);
          recordDeliverySchedule = map (recordDelivery updates) (c_deliverySchedule customer)
      in \<lparr>r_id = 0, r_customer = c_id customer, r_date = today,
          r_deliverySchedule = recordDeliverySchedule,
          r_totalDailyQuantity = foldl (\<lambda>a d. a + d_totalQuantity d) 0 recordDeliverySchedule,
          r_totalDailyPrice = foldl (\<lambda>a d. a + d_totalPrice d) 0 recordDeliverySchedule\<rparr>)"


section \<open>Example data\<close>

text \<open>
  One customer with a morning delivery of 2 units at 60, a credit of 3500 and a daily
  record of January 2025 worth 3000; and an invoice of 1000, unpaid, due in the future.
\<close>

definition ex_item :: milk_item where
  "ex_item = \<lparr>mi_milkType = 1, mi_subcategory = 1, mi_quantity = 2, mi_pricePerUnit = 60,
              mi_totalPrice = 120\<rparr>"

definition ex_delivery :: delivery where
  "ex_delivery = \<lparr>d_time = Morning, d_milkItems = [ex_item], d_totalQuantity = 2,
                  d_totalPrice = 120\<rparr>"

definition ex_customer :: customer where
  "ex_customer = \<lparr>c_id = 1, c_name = ''Asha'', c_isActive = True,
                  c_deliverySchedule = [ex_delivery], c_totalDailyQuantity = 2,
                  c_totalDailyPrice = 120, c_advance = 3500\<rparr>"

definition ex_record :: daily_record where
  "ex_record = \<lparr>r_id = 1, r_customer = 1, r_date = 1736467200000,
                r_deliverySchedule = [ex_delivery], r_totalDailyQuantity = 50,
                r_totalDailyPrice = 3000\<rparr>"

definition ex_invoice :: invoice where
  "ex_invoice = \<lparr>i_id = 1, i_customer = 1, i_invoiceNumber = ''INV-25-01-0001'',
                 i_startDate = 1733011200000, i_endDate = 1735603200000,
                 i_totalQuantity = 20, i_totalAmount = 1000, i_amountPaid = 0,
                 i_dueAmount = 1000, i_status = Pending, i_dueDate = 1736899200000,
                 i_items = [], i_payments = []\<rparr>"

definition ex_store :: store where
  "ex_store = \<lparr>customers = [ex_customer], invoices = [], records = [ex_record],
               quantityUpdates = [], holidays = [], categories = [1], subcategories = [1]\<rparr>"

definition ex_now :: date where
  \<comment> \<open>2025-01-05 10:00\<close>
  "ex_now = 1736071200000"

definition ex_genNo :: "date \<Rightarrow> invoice list \<Rightarrow> string" where
  "ex_genNo now invs = ''INV-25-02-0001''"

definition ex_feb :: date where
  \<comment> \<open>2025-02-03 00:00\<close>
  "ex_feb = 1738540800000"

definition ex_january :: gen_request where
  "ex_january = \<lparr>g_id = 1, g_month = 1, g_year = 2025, g_updateExisting = False\<rparr>"





definition ex_total :: rat where
  \<comment> \<open>the double 1000.1\<close>
  "ex_total = toDouble (10001 / 10)"

definition ex_paid :: rat where
  \<comment> \<open>the double 333.33\<close>
  "ex_paid = toDouble (33333 / 100)"

definition ex_due :: rat where
  \<comment> \<open>the double \<open>1000.1 - 333.33\<close>\<close>
  "ex_due = jsSub ex_total ex_paid"

definition ex_float_invoice :: invoice where
  \<comment> \<open>an invoice of 1000.1 of which 333.33 is paid, with the due amount the hook stored\<close>
  "ex_float_invoice =
     ex_invoice\<lparr>i_totalAmount := ex_total, i_amountPaid := ex_paid, i_dueAmount := ex_due,
                i_status := PartiallyPaid,
                i_payments := [\<lparr>p_amount = ex_paid, p_paymentDate = 1735948800000,
                                p_paymentMethod = Cash, p_transactionId = None,
                                p_notes = None\<rparr>]\<rparr>"

definition ex_payment :: payment_request where
  "ex_payment = \<lparr>pr_amount = Some 700, pr_paymentMethod = Some ''cash'',
                 pr_transactionId = None, pr_notes = None\<rparr>"

definition ex_genTxn :: "date \<Rightarrow> customer \<Rightarrow> invoice list \<Rightarrow> string" where
  "ex_genTxn now c invs = ''2025_1_1''"

definition ex_quantity_request :: quantity_request where
  "ex_quantity_request =
     \<lparr>qr_customerId = Some 1, qr_date = Some 1736035200000, qr_time = Some ''morning'',
      qr_milkType = Some 1, qr_subcategory = Some 1, qr_newQuantity = Some 3,
      qr_reason = Some ''guests'', qr_isAccept = None\<rparr>"

definition ex_morning :: store where
  \<comment> \<open>the example store before any daily record exists\<close>
  "ex_morning = ex_store\<lparr>records := []\<rparr>"

definition ex_daily :: daily_record where
  \<comment> \<open>the record of 2025-01-05 for the example customer\<close>
  "ex_daily = \<lparr>r_id = 1, r_customer = 1, r_date = 1736035200000,
               r_deliverySchedule = [ex_delivery], r_totalDailyQuantity = 2,
               r_totalDailyPrice = 120\<rparr>"

definition ex_rejected :: quantity_update where
  \<comment> \<open>a rejected change of the morning item to 5 units, for 2025-01-05\<close>
  "ex_rejected = \<lparr>q_id = 1, q_customer = 1, q_date = 1736035200000, q_time = Morning,
                  q_oldQuantity = 2, q_newQuantity = 5, q_difference = 3,
                  q_reason = ''No reason provided'', q_milkType = 1, q_subcategory = 1,
                  q_isAccept = False, q_status = UpdRejected, q_lastQuantity = 0\<rparr>"


section \<open>Facts about collections\<close>

lemmas ex_defs = ex_item_def ex_delivery_def ex_customer_def ex_record_def ex_invoice_def
  ex_store_def ex_now_def ex_rejected_def



lemma find_put_doc_other:
  "k \<noteq> key d \<Longrightarrow> find (\<lambda>x. key x = k) (put_doc key d xs) = find (\<lambda>x. key x = k) xs"
  by (induction xs) auto




lemma find_append_fresh:
  "\<not> list_ex P xs \<Longrightarrow> P d \<Longrightarrow> find P (xs @ [d]) = Some d"
  by (induction xs) auto



section \<open>Invoice due amount and status\<close>


lemma invoice_pre_save_status:
  "i_status (invoice_pre_save now ivc) =
     derived_status (i_totalAmount ivc - i_amountPaid ivc) (i_amountPaid ivc) (i_dueDate ivc) now"
  by (simp add: invoice_pre_save_def derived_status_def Let_def)

lemma invoice_pre_save_fields:
  "i_id (invoice_pre_save now ivc) = i_id ivc"
  "i_customer (invoice_pre_save now ivc) = i_customer ivc"
  "i_invoiceNumber (invoice_pre_save now ivc) = i_invoiceNumber ivc"
  "i_totalAmount (invoice_pre_save now ivc) = i_totalAmount ivc"
  "i_totalQuantity (invoice_pre_save now ivc) = i_totalQuantity ivc"
  "i_amountPaid (invoice_pre_save now ivc) = i_amountPaid ivc"
  "i_dueDate (invoice_pre_save now ivc) = i_dueDate ivc"
  "i_startDate (invoice_pre_save now ivc) = i_startDate ivc"
  "i_endDate (invoice_pre_save now ivc) = i_endDate ivc"
  "i_payments (invoice_pre_save now ivc) = i_payments ivc"
  "i_items (invoice_pre_save now ivc) = i_items ivc"
  by (simp_all add: invoice_pre_save_def Let_def)




section \<open>The status override\<close>

lemma updateInvoiceStatus_rederives:
  "updateInvoiceStatus now k st s = (StatusOk ivc, s') \<Longrightarrow>
   i_status ivc =
     derived_status (i_totalAmount ivc - i_amountPaid ivc) (i_amountPaid ivc) (i_dueDate ivc) now"
  by (auto simp: updateInvoiceStatus_def invoice_save_def Let_def invoice_pre_save_status
        invoice_pre_save_fields split: option.splits)

text \<open>
  C4, at a failing input. The stored invoice of 1000 is unpaid and not yet due. The
  override asks for \<open>paid\<close>; \<open>updateInvoiceStatus\<close> assigns it and calls \<open>save\<close>, whose hook
  derives the status again: the stored status is still \<open>pending\<close>.
\<close>

theorem updateInvoiceStatus_override_lost:
  "updateInvoiceStatus ex_now 1 ''paid'' (ex_store\<lparr>invoices := [ex_invoice]\<rparr>) =
     (StatusOk ex_invoice, ex_store\<lparr>invoices := [ex_invoice]\<rparr>) \<and>
   i_status ex_invoice = Pending \<and>
   map_option i_status
     (findInvoice 1 (snd (updateInvoiceStatus ex_now 1 ''paid'' (ex_store\<lparr>invoices := [ex_invoice]\<rparr>)))) =
     Some Pending"
  by (simp add: updateInvoiceStatus_def findInvoice_def invoice_save_def invoice_pre_save_def
      Let_def ex_defs)


section \<open>The credit balance\<close>

lemma updateAdvanceAmount_rejects_negative:
  "a < 0 \<Longrightarrow> updateAdvanceAmount k (Some a) s = (AdvanceBadRequest ''Invalid amount'', s)"
  by (simp add: updateAdvanceAmount_def)

text \<open>
  C9, at a failing input. The customer's credit is 3500; \<open>createAdvancePayment\<close> with the
  amount -4000 adds it without any check and stores a credit of -500.
\<close>

theorem createAdvancePayment_negative_balance:
  "c_advance ex_customer = 3500 \<and>
   map_option c_advance (findCustomer 1 (snd (createAdvancePayment 1 (- 4000) ex_store))) =
     Some (- 500)"
  by (simp add: createAdvancePayment_def findCustomer_def customer_save_def customer_invalid_def
      customer_pre_save_def recalc_delivery_def recalc_item_def Let_def ex_defs)


section \<open>Daily records and rejected quantity changes\<close>

lemma effectiveQuantity_any_status:
  "effectiveQuantity (map (\<lambda>u. u\<lparr>q_isAccept := b, q_status := st\<rparr>) updates) d item =
   effectiveQuantity updates d item"
  by (induction updates) (auto simp: effectiveQuantity_def)

text \<open>
  C2, at a failing input. The customer has a rejected quantity change for the day, and
  no record yet. The test \<open>updates.isAccept === false\<close> reads a property of the array
  of changes, which is never \<open>false\<close>, so the customer is not skipped: the run stores a
  record for that customer and day.
\<close>

theorem createDailyRecords_rejected_not_skipped:
  "q_isAccept ex_rejected = False \<and> q_status ex_rejected = UpdRejected \<and>
   q_customer ex_rejected = c_id ex_customer \<and> q_date ex_rejected = startOfDay ex_now \<and>
   map r_customer
     (records (snd (createDailyRecords ex_now
                      (ex_store\<lparr>records := [], quantityUpdates := [ex_rejected]\<rparr>)))) = [1] \<and>
   map r_date
     (records (snd (createDailyRecords ex_now
                      (ex_store\<lparr>records := [], quantityUpdates := [ex_rejected]\<rparr>)))) =
     [startOfDay ex_now]"
  by code_simp

text \<open>
  C3, at a failing input. The standing quantity of the morning item is 2 and the only
  change for that day, slot, milk type and subcategory is rejected, with new quantity 5.
  The record that the run creates has quantity 5 for the item: the change is looked up
  by its key only, whatever its status.
\<close>

theorem createDailyRecords_rejected_quantity_used:
  "q_status ex_rejected = UpdRejected \<and> q_isAccept ex_rejected = False \<and>
   q_newQuantity ex_rejected = 5 \<and>
   map (map mi_quantity \<circ> d_milkItems) (c_deliverySchedule ex_customer) = [[2]] \<and>
   map (\<lambda>r. map (map mi_quantity \<circ> d_milkItems) (r_deliverySchedule r))
     (records (snd (createDailyRecords ex_now
                      (ex_store\<lparr>records := [], quantityUpdates := [ex_rejected]\<rparr>)))) = [[[5]]]"
  by code_simp


section \<open>New invoices and the customer's credit\<close>







lemma find_Some_holds: "find P xs = Some x \<Longrightarrow> P x \<and> x \<in> set xs"
  by (induction xs) (auto split: if_splits)








section \<open>Overlapping invoice periods\<close>

lemma find_exists: "x \<in> set xs \<Longrightarrow> P x \<Longrightarrow> \<exists>y. find P xs = Some y"
  by (induction xs) auto

text \<open>
  C8. A single-customer generation request for a valid month, with \<open>updateExisting\<close>
  false, for a stored customer who has a stored invoice whose period \<open>[startDate, endDate]\<close>
  intersects the requested month \<open>[new Date(year, month - 1, 1), new Date(year, month, 0)]\<close>
  (the interval test, not equality of the periods): the response is the conflict, with
  the id and the number of a stored invoice of that customer that intersects the month,
  and the store is the one before the request.
\<close>

theorem generate_overlap_conflict:
  assumes month: "1 \<le> g_month rq" "g_month rq \<le> 12" and year: "g_year rq \<noteq> 0"
    and upd: "\<not> g_updateExisting rq"
    and cust: "findCustomer (g_id rq) s = Some c"
    and x: "x \<in> set (invoices s)" "i_customer x = g_id rq"
    and overlap: "i_startDate x \<le> jsDate (g_year rq) (g_month rq) 0"
      "jsDate (g_year rq) (g_month rq - 1) 1 \<le> i_endDate x"
  shows "\<exists>e. e \<in> set (invoices s) \<and> i_customer e = g_id rq \<and>
           i_startDate e \<le> jsDate (g_year rq) (g_month rq) 0 \<and>
           jsDate (g_year rq) (g_month rq - 1) 1 \<le> i_endDate e \<and>
           generateCustomerMonthlyInvoice genNo now rq s =
             (GenConflict ''Invoice already exists for this period'' (i_id e) (i_invoiceNumber e),
              s)"
proof -
  let ?sd = "jsDate (g_year rq) (g_month rq - 1) 1"
  let ?ed = "jsDate (g_year rq) (g_month rq) 0"
  let ?P = "\<lambda>i. i_customer i = g_id rq \<and> i_startDate i \<le> ?ed \<and> ?sd \<le> i_endDate i"
  from x overlap have "\<exists>y. find ?P (invoices s) = Some y"
    by (intro find_exists [of x]) simp_all
  then obtain e where e: "findOverlapping (g_id rq) ?sd ?ed s = Some e"
    by (auto simp: findOverlapping_def)
  then have pe: "?P e \<and> e \<in> set (invoices s)"
    unfolding findOverlapping_def by (rule find_Some_holds)
  have "generateCustomerMonthlyInvoice genNo now rq s =
          (GenConflict ''Invoice already exists for this period'' (i_id e) (i_invoiceNumber e), s)"
    using month year upd cust e
    by (simp add: generateCustomerMonthlyInvoice_def Let_def)
  with pe show ?thesis by blast
qed

theorem generate_overlap_conflict_witness:
  "(1::int) \<le> g_month ex_january \<and> g_month ex_january \<le> 12 \<and> g_year ex_january \<noteq> 0 \<and>
   \<not> g_updateExisting ex_january \<and>
   findCustomer (g_id ex_january)
     (ex_store\<lparr>invoices := [ex_invoice\<lparr>i_endDate := 1736899200000\<rparr>]\<rparr>) = Some ex_customer \<and>
   i_customer (ex_invoice\<lparr>i_endDate := 1736899200000\<rparr>) = g_id ex_january \<and>
   i_startDate (ex_invoice\<lparr>i_endDate := 1736899200000\<rparr>) \<le> jsDate 2025 1 0 \<and>
   jsDate 2025 0 1 \<le> i_endDate (ex_invoice\<lparr>i_endDate := 1736899200000\<rparr>) \<and>
   i_startDate (ex_invoice\<lparr>i_endDate := 1736899200000\<rparr>) \<noteq> jsDate 2025 0 1 \<and>
   generateCustomerMonthlyInvoice ex_genNo ex_feb ex_january
       (ex_store\<lparr>invoices := [ex_invoice\<lparr>i_endDate := 1736899200000\<rparr>]\<rparr>) =
     (GenConflict ''Invoice already exists for this period'' 1 ''INV-25-01-0001'',
      ex_store\<lparr>invoices := [ex_invoice\<lparr>i_endDate := 1736899200000\<rparr>]\<rparr>)"
proof -
  let ?x = "ex_invoice\<lparr>i_endDate := 1736899200000\<rparr>"
  let ?s = "ex_store\<lparr>invoices := [?x]\<rparr>"
  have h: "(1::int) \<le> g_month ex_january" "g_month ex_january \<le> 12" "g_year ex_january \<noteq> 0"
    "\<not> g_updateExisting ex_january" "findCustomer (g_id ex_january) ?s = Some ex_customer"
    "?x \<in> set (invoices ?s)" "i_customer ?x = g_id ex_january"
    "i_startDate ?x \<le> jsDate (g_year ex_january) (g_month ex_january) 0"
    "jsDate (g_year ex_january) (g_month ex_january - 1) 1 \<le> i_endDate ?x"
    by code_simp+
  have e: "g_year ex_january = 2025" "g_month ex_january = 1" "invoices ?s = [?x]"
    "i_id ?x = 1" "i_invoiceNumber ?x = ''INV-25-01-0001''"
    "i_startDate ?x \<noteq> jsDate 2025 0 1"
    by code_simp+
  from generate_overlap_conflict [OF h, of ex_genNo ex_feb] e h
  show ?thesis by auto
qed


section \<open>Payments above the due amount\<close>

lemma ex_total_value: "ex_total = 8796972631510221 / 8796093022208"
  by code_simp

lemma ex_paid_value: "ex_paid = 5864003374185185 / 17592186044416"
  by code_simp

lemma ex_due_value: "ex_due = 1466242736104407 / 2199023255552"
  unfolding ex_due_def jsSub_def ex_total_value ex_paid_value by code_simp

lemma ex_sum_value: "jsAdd ex_paid ex_due = ex_total - 1 / 2 ^ 43"
  unfolding jsAdd_def ex_total_value ex_paid_value ex_due_value by code_simp

lemma ex_rest_value: "ex_total - (ex_total - 1 / 2 ^ 43) = (1::rat) / 2 ^ 43"
  by simp

lemma ex_sum_pos: "0 < ex_total - 1 / 2 ^ 43"
  unfolding ex_total_value by code_simp

lemma ex_rest_pos: "\<not> (1::rat) / 2 ^ 43 \<le> 0"
  by simp

lemma ex_over_pos: "0 < jsSub 700 ex_due"
  unfolding jsSub_def ex_due_value by code_simp

text \<open>
  C6, at a failing input. The stored invoice has \<open>totalAmount\<close> 1000.1 and \<open>amountPaid\<close>
  333.33, and its \<open>dueAmount\<close> is the double \<open>1000.1 - 333.33\<close> that the save hook
  computed. A cash payment of 700, more than the due amount, is submitted.
  \<open>addPaymentToInvoice\<close> applies exactly the due amount, and \<open>addPayment\<close> adds it to
  \<open>amountPaid\<close> in double arithmetic: the sum is the double below 1000.1, so the hook
  stores a \<open>dueAmount\<close> of \<open>1 / 2 ^ 43\<close> and the status \<open>partially_paid\<close>, where the
  claim has 0 and \<open>paid\<close>.
\<close>

theorem addPayment_rounding_leaves_due:
  "i_totalAmount ex_float_invoice = toDouble (10001 / 10) \<and>
   i_amountPaid ex_float_invoice = toDouble (33333 / 100) \<and>
   i_dueAmount ex_float_invoice =
     jsSub (i_totalAmount ex_float_invoice) (i_amountPaid ex_float_invoice) \<and>
   0 < i_dueAmount ex_float_invoice \<and> i_dueAmount ex_float_invoice < 700 \<and>
   pr_amount ex_payment = Some 700 \<and>
   (\<exists>ivc s'.
      addPaymentToInvoice ex_genTxn ex_now 1 ex_payment
          (ex_store\<lparr>invoices := [ex_float_invoice]\<rparr>) = (PaymentOk ivc, s') \<and>
      findInvoice 1 s' = Some ivc \<and>
      i_totalAmount ivc = i_totalAmount ex_float_invoice \<and>
      i_amountPaid ivc = i_totalAmount ex_float_invoice - 1 / 2 ^ 43 \<and>
      i_dueAmount ivc = 1 / 2 ^ 43 \<and> i_status ivc = PartiallyPaid)"
proof -
  let ?s = "ex_store\<lparr>invoices := [ex_float_invoice]\<rparr>"
  let ?p = "\<lparr>p_amount = ex_due, p_paymentDate = ex_now, p_paymentMethod = Cash,
             p_transactionId = None, p_notes = None\<rparr>"
  let ?after = "ex_float_invoice\<lparr>i_payments := i_payments ex_float_invoice @ [?p],
                  i_amountPaid := ex_total - 1 / 2 ^ 43, i_dueAmount := 1 / 2 ^ 43,
                  i_status := PartiallyPaid\<rparr>"
  have f: "i_totalAmount ex_float_invoice = ex_total" "i_amountPaid ex_float_invoice = ex_paid"
    "i_dueAmount ex_float_invoice = ex_due" "i_dueDate ex_float_invoice = i_dueDate ex_invoice"
    "i_id ex_float_invoice = 1" "i_customer ex_float_invoice = 1"
    by (simp_all add: ex_float_invoice_def ex_invoice_def)
  have hyp: "0 < ex_due" "ex_due < 700"
    unfolding ex_due_value by simp_all
  have hook: "invoice_pre_save ex_now
      (ex_float_invoice\<lparr>i_payments := i_payments ex_float_invoice @ [?p],
                         i_amountPaid := jsAdd ex_paid ex_due\<rparr>) = ?after"
    using ex_sum_pos ex_rest_pos
    by (simp add: invoice_pre_save_def Let_def f ex_sum_value ex_rest_value)
  have ap: "addPayment ex_now ?p ex_float_invoice ?s = (?after, ?s\<lparr>invoices := [?after]\<rparr>)"
    using hook by (simp add: addPayment_def invoice_save_def Let_def f ex_store_def)
  have cs: "customer_save (ex_customer\<lparr>c_advance := jsAdd 3500 (jsSub 700 ex_due)\<rparr>)
              (?s\<lparr>invoices := [?after]\<rparr>) =
            Inr (ex_customer\<lparr>c_advance := jsAdd 3500 (jsSub 700 ex_due)\<rparr>,
                 ?s\<lparr>invoices := [?after],
                    customers := [ex_customer\<lparr>c_advance := jsAdd 3500 (jsSub 700 ex_due)\<rparr>]\<rparr>)"
    by (simp add: customer_save_def customer_invalid_def customer_pre_save_def recalc_delivery_def
        recalc_item_def Let_def ex_customer_def ex_delivery_def ex_item_def ex_store_def)
  have run: "addPaymentToInvoice ex_genTxn ex_now 1 ex_payment ?s =
      (PaymentOk ?after,
       ?s\<lparr>invoices := [?after],
          customers := [ex_customer\<lparr>c_advance := jsAdd 3500 (jsSub 700 ex_due)\<rparr>]\<rparr>)"
    using hyp ex_over_pos ap cs
    by (simp add: addPaymentToInvoice_def Let_def findInvoice_def findCustomer_def truthy_def
        paymentMethodName_def ex_payment_def f min_def ex_store_def ex_customer_def)
  have stored: "findInvoice 1
       (?s\<lparr>invoices := [?after],
          customers := [ex_customer\<lparr>c_advance := jsAdd 3500 (jsSub 700 ex_due)\<rparr>]\<rparr>) =
       Some ?after"
    by (simp add: findInvoice_def f)
  have "\<exists>ivc s'.
      addPaymentToInvoice ex_genTxn ex_now 1 ex_payment ?s = (PaymentOk ivc, s') \<and>
      findInvoice 1 s' = Some ivc \<and>
      i_totalAmount ivc = i_totalAmount ex_float_invoice \<and>
      i_amountPaid ivc = i_totalAmount ex_float_invoice - 1 / 2 ^ 43 \<and>
      i_dueAmount ivc = 1 / 2 ^ 43 \<and> i_status ivc = PartiallyPaid"
    using run stored by (intro exI [of _ ?after] exI) (simp add: f)
  moreover have "pr_amount ex_payment = Some 700" by (simp add: ex_payment_def)
  ultimately show ?thesis
    using hyp by (simp add: f ex_total_def ex_paid_def ex_due_def)
qed


section \<open>Quantity adjustments and the standing schedule\<close>

lemma put_doc_mem: "d \<in> set (put_doc key d xs)"
  by (induction xs) auto

text \<open>
  C10. Whatever the request to create or change a quantity adjustment, the stored
  customers, and with them every standing delivery schedule, are the ones before the
  request; so are the daily records and the invoices. When the request succeeds, the
  adjustment in the response, with the requested new quantity, is in the stored ledger
  of quantity updates.
\<close>

theorem updateCustomerQuantity_keeps_schedule:
  "customers (snd (updateCustomerQuantity rq s)) = customers s \<and>
   records (snd (updateCustomerQuantity rq s)) = records s \<and>
   invoices (snd (updateCustomerQuantity rq s)) = invoices s \<and>
   (fst (updateCustomerQuantity rq s) = QuantityOk u sched \<longrightarrow>
      u \<in> set (quantityUpdates (snd (updateCustomerQuantity rq s))) \<and>
      qr_newQuantity rq = Some (q_newQuantity u))"
  by (auto simp: updateCustomerQuantity_def Let_def put_doc_mem
           split: option.splits prod.splits if_splits)

theorem updateCustomerQuantity_keeps_schedule_witness:
  "fst (updateCustomerQuantity ex_quantity_request ex_store) =
     QuantityOk
       \<lparr>q_id = 1, q_customer = 1, q_date = 1736035200000, q_time = Morning, q_oldQuantity = 2,
        q_newQuantity = 3, q_difference = 1, q_reason = ''guests'', q_milkType = 1,
        q_subcategory = 1, q_isAccept = False, q_status = UpdPending, q_lastQuantity = 0\<rparr>
       [ex_delivery\<lparr>d_milkItems := [ex_item\<lparr>mi_quantity := 3, mi_totalPrice := 180\<rparr>],
                    d_totalQuantity := 3, d_totalPrice := 180\<rparr>] \<and>
   customers (snd (updateCustomerQuantity ex_quantity_request ex_store)) = [ex_customer] \<and>
   map (map mi_quantity \<circ> d_milkItems) (c_deliverySchedule ex_customer) = [[2]] \<and>
   map q_newQuantity
     (quantityUpdates (snd (updateCustomerQuantity ex_quantity_request ex_store))) = [3]"
proof -
  have r: "fst (updateCustomerQuantity ex_quantity_request ex_store) =
     QuantityOk
       \<lparr>q_id = 1, q_customer = 1, q_date = 1736035200000, q_time = Morning, q_oldQuantity = 2,
        q_newQuantity = 3, q_difference = 1, q_reason = ''guests'', q_milkType = 1,
        q_subcategory = 1, q_isAccept = False, q_status = UpdPending, q_lastQuantity = 0\<rparr>
       [ex_delivery\<lparr>d_milkItems := [ex_item\<lparr>mi_quantity := 3, mi_totalPrice := 180\<rparr>],
                    d_totalQuantity := 3, d_totalPrice := 180\<rparr>]"
    by code_simp
  have e: "customers ex_store = [ex_customer]"
    "map (map mi_quantity \<circ> d_milkItems) (c_deliverySchedule ex_customer) = [[2]]"
    "map q_newQuantity
      (quantityUpdates (snd (updateCustomerQuantity ex_quantity_request ex_store))) = [3]"
    by code_simp+
  from updateCustomerQuantity_keeps_schedule [of ex_quantity_request ex_store] r e
  show ?thesis by simp
qed


section \<open>Running the daily record generation twice\<close>

lemma find_append_Some: "find P xs = Some x \<Longrightarrow> find P (xs @ ys) = Some x"
  by (induction xs) (auto split: if_splits)

lemma find_None_ex: "find P xs = None \<Longrightarrow> \<not> list_ex P xs"
  by (induction xs) (auto split: if_splits)

lemma record_create_Inr:
  assumes "record_create flds s = Inr (r, s1)"
  shows "s1 = s\<lparr>records := records s @ [r]\<rparr>"
    and "r_customer r = r_customer flds" and "r_date r = r_date flds"
  using assms by (auto simp: record_create_def Let_def split: if_splits)

lemma dailyLoop_Cons_existing:
  "find (\<lambda>r. r_customer r = c_id c \<and> r_date r = today) (records s) = Some x \<Longrightarrow>
   dailyLoop today (c # cs) (recs, s) = dailyLoop today cs (recs, s)"
  by simp

lemma dailyLoop_Cons_new:
  "find (\<lambda>r. r_customer r = c_id c \<and> r_date r = today) (records s) = None \<Longrightarrow>
   dailyLoop today (c # cs) (recs, s) =
     (case record_create (dailyFields today c s) s of
        Inl e \<Rightarrow> (Inl e, s)
      | Inr (r, s1) \<Rightarrow> dailyLoop today cs (recs @ [r], s1))"
  by (simp add: dailyFields_def array_isAccept_def Let_def)

lemma dailyFields_records:
  "dailyFields today c (s\<lparr>records := rs\<rparr>) = dailyFields today c s"
  by (simp add: dailyFields_def)

lemma dailyFields_key:
  "r_customer (dailyFields today c s) = c_id c" "r_date (dailyFields today c s) = today"
  by (simp_all add: dailyFields_def Let_def)

lemma dailyLoop_appends:
  "dailyLoop today cs (recs, s) = (res, s') \<Longrightarrow>
   \<exists>new. s' = s\<lparr>records := records s @ new\<rparr> \<and>
         (\<forall>r\<in>set new. r_date r = today \<and> recordsFor (r_customer r) today s = []) \<and>
         distinct (map r_customer new) \<and>
         (\<forall>recs'. res = Inr recs' \<longrightarrow> recs' = recs @ new)"
proof (induction cs arbitrary: recs s)
  case Nil
  then show ?case by (intro exI [of _ "[]"]) auto
next
  case (Cons c cs)
  let ?P = "\<lambda>r. r_customer r = c_id c \<and> r_date r = today"
  show ?case
  proof (cases "find ?P (records s)")
    case (Some x)
    with Cons.prems have "dailyLoop today cs (recs, s) = (res, s')" by simp
    then show ?thesis by (rule Cons.IH)
  next
    case None
    note step = dailyLoop_Cons_new [OF None, of cs recs]
    show ?thesis
    proof (cases "record_create (dailyFields today c s) s")
      case (Inl e)
      with step Cons.prems have "res = Inl e" "s' = s" by simp_all
      then show ?thesis by (intro exI [of _ "[]"]) auto
    next
      case (Inr p)
      obtain r s1 where p: "p = (r, s1)" by (cases p)
      note rc = record_create_Inr [OF Inr [unfolded p]]
      from step Inr p Cons.prems have "dailyLoop today cs (recs @ [r], s1) = (res, s')"
        by simp
      from Cons.IH [OF this] obtain new where
        n: "s' = s1\<lparr>records := records s1 @ new\<rparr>"
          "\<forall>r\<in>set new. r_date r = today \<and> recordsFor (r_customer r) today s1 = []"
          "distinct (map r_customer new)"
          "\<forall>recs'. res = Inr recs' \<longrightarrow> recs' = (recs @ [r]) @ new"
        by blast
      have key: "r_customer r = c_id c" "r_date r = today"
        using rc(2,3) by (simp_all add: dailyFields_key)
      have empty: "recordsFor (r_customer r) today s = []"
        using find_None_ex [OF None] by (simp add: recordsFor_def key list_ex_iff filter_empty_conv)
      have notin: "r_customer r \<notin> set (map r_customer new)"
      proof
        assume "r_customer r \<in> set (map r_customer new)"
        then obtain y where y: "y \<in> set new" "r_customer y = r_customer r" by auto
        with n(2) have "recordsFor (r_customer r) today s1 = []" by auto
        then show False by (simp add: recordsFor_def rc(1) key)
      qed
      have old: "\<forall>y\<in>set new. recordsFor (r_customer y) today s = []"
        using n(2) by (auto simp: recordsFor_def rc(1) split: if_splits)
      show ?thesis
        using n key empty notin old
        by (intro exI [of _ "r # new"]) (auto simp: rc(1))
    qed
  qed
qed

lemma dailyLoop_keeps_found:
  assumes "dailyLoop today cs (recs, s) = (res, s')" and "find P (records s) = Some x"
  shows "find P (records s') = Some x"
proof -
  from dailyLoop_appends [OF assms(1)] obtain new where "s' = s\<lparr>records := records s @ new\<rparr>"
    by blast
  then show ?thesis using assms(2) by (simp add: find_append_Some)
qed

lemma dailyLoop_stable:
  "snd (dailyLoop today cs (recs', snd (dailyLoop today cs (recs, s)))) =
   snd (dailyLoop today cs (recs, s))"
proof (induction cs arbitrary: recs recs' s)
  case Nil
  show ?case by simp
next
  case (Cons c cs)
  let ?P = "\<lambda>r. r_customer r = c_id c \<and> r_date r = today"
  show ?case
  proof (cases "find ?P (records s)")
    case (Some x)
    obtain res s1 where l: "dailyLoop today cs (recs, s) = (res, s1)"
      by (cases "dailyLoop today cs (recs, s)")
    have "find ?P (records s1) = Some x" by (rule dailyLoop_keeps_found [OF l Some])
    then have "dailyLoop today (c # cs) (recs', s1) = dailyLoop today cs (recs', s1)"
      by (rule dailyLoop_Cons_existing)
    moreover have "dailyLoop today (c # cs) (recs, s) = (res, s1)"
      using Some l by simp
    moreover have "snd (dailyLoop today cs (recs', s1)) = s1"
      using Cons.IH [of recs' recs s] l by simp
    ultimately show ?thesis by simp
  next
    case None
    note step = dailyLoop_Cons_new [OF None]
    show ?thesis
    proof (cases "record_create (dailyFields today c s) s")
      case (Inl e)
      then show ?thesis using step by simp
    next
      case (Inr p)
      obtain r s0 where p: "p = (r, s0)" by (cases p)
      note rc = record_create_Inr [OF Inr [unfolded p]]
      obtain res s1 where l: "dailyLoop today cs (recs @ [r], s0) = (res, s1)"
        by (cases "dailyLoop today cs (recs @ [r], s0)")
      have first: "dailyLoop today (c # cs) (recs, s) = (res, s1)"
        using step [of cs recs] Inr p l by simp
      have "?P r" using rc(2,3) by (simp add: dailyFields_key)
      then have "find ?P (records s0) = Some r"
        using None by (simp add: rc(1) find_append_fresh find_None_ex)
      then have "find ?P (records s1) = Some r" by (rule dailyLoop_keeps_found [OF l])
      then have "dailyLoop today (c # cs) (recs', s1) = dailyLoop today cs (recs', s1)"
        by (rule dailyLoop_Cons_existing)
      moreover have "snd (dailyLoop today cs (recs', s1)) = s1"
        using Cons.IH [of recs' "recs @ [r]" s0] l by simp
      ultimately show ?thesis using first by simp
    qed
  qed
qed

lemma dailyLoop_all_found:
  "dailyLoop today cs (recs, s) = (Inr recs', s') \<Longrightarrow>
   \<forall>c\<in>set cs. find (\<lambda>r. r_customer r = c_id c \<and> r_date r = today) (records s') \<noteq> None"
proof (induction cs arbitrary: recs s)
  case Nil
  show ?case by simp
next
  case (Cons c cs)
  let ?P = "\<lambda>r. r_customer r = c_id c \<and> r_date r = today"
  show ?case
  proof (cases "find ?P (records s)")
    case (Some x)
    with Cons.prems have l: "dailyLoop today cs (recs, s) = (Inr recs', s')" by simp
    from dailyLoop_keeps_found [OF l Some] Cons.IH [OF l] show ?thesis by simp
  next
    case None
    note step = dailyLoop_Cons_new [OF None, of cs recs]
    show ?thesis
    proof (cases "record_create (dailyFields today c s) s")
      case (Inl e)
      with step Cons.prems show ?thesis by simp
    next
      case (Inr p)
      obtain r s0 where p: "p = (r, s0)" by (cases p)
      note rc = record_create_Inr [OF Inr [unfolded p]]
      from step Inr p Cons.prems have l: "dailyLoop today cs (recs @ [r], s0) = (Inr recs', s')"
        by simp
      have "?P r" using rc(2,3) by (simp add: dailyFields_key)
      then have "find ?P (records s0) = Some r"
        using None by (simp add: rc(1) find_append_fresh find_None_ex)
      from dailyLoop_keeps_found [OF l this] Cons.IH [OF l] show ?thesis by simp
    qed
  qed
qed

lemma dailyLoop_nothing_to_do:
  "\<forall>c\<in>set cs. find (\<lambda>r. r_customer r = c_id c \<and> r_date r = today) (records s) \<noteq> None \<Longrightarrow>
   dailyLoop today cs (recs, s) = (Inr recs, s)"
  by (induction cs) auto

lemma filter_distinct_key:
  "distinct (map f xs) \<Longrightarrow> x \<in> set xs \<Longrightarrow> filter (\<lambda>y. f y = f x) xs = [x]"
proof (induction xs)
  case Nil
  then show ?case by simp
next
  case (Cons a xs)
  show ?case
  proof (cases "x = a")
    case True
    from Cons.prems(1) have "\<forall>y\<in>set xs. f y \<noteq> f a" by (metis distinct.simps(2) imageI list.simps(9) set_map)
    then have "filter (\<lambda>y. f y = f a) xs = []" by (simp add: filter_empty_conv)
    with True show ?thesis by simp
  next
    case False
    with Cons.prems have "x \<in> set xs" "f a \<noteq> f x" by auto
    with Cons.IH Cons.prems(1) show ?thesis by simp
  qed
qed

lemma checkIfHoliday_records:
  "checkIfHoliday d (s\<lparr>records := rs\<rparr>) = checkIfHoliday d s"
  by (simp add: checkIfHoliday_def Let_def cong: option.case_cong)

lemma createDailyRecords_loop:
  "checkIfHoliday (startOfDay now) s = None \<Longrightarrow>
   dailyLoop (startOfDay now) (filter c_isActive (customers s)) ([], s) = (res, s1) \<Longrightarrow>
   createDailyRecords now s =
     (case res of Inr recs \<Rightarrow> DailyCreated (length recs) recs | Inl e \<Rightarrow> DailyError e, s1)"
  by (simp add: createDailyRecords_def Let_def split: sum.splits)

lemma createDailyRecords_holiday:
  "checkIfHoliday (startOfDay now) s = Some h \<Longrightarrow>
   createDailyRecords now s = (DailyHoliday (h_name h) h, s)"
  by (simp add: createDailyRecords_def Let_def)

text \<open>
  C7, as amended. Two runs of the daily record generation on the same day: the second
  run stores nothing, whatever the first did. When the first run succeeded, it created
  a record for every active customer that had none for the day; every record that it
  created is, after the second run, the only stored record of its customer for that
  day; and the second run answers with the success response of count 0 and an empty
  list, which names no existing record.
\<close>

theorem daily_records_second_run:
  assumes same: "startOfDay now' = startOfDay now"
  shows "snd (createDailyRecords now' (snd (createDailyRecords now s))) =
           snd (createDailyRecords now s) \<and>
         (fst (createDailyRecords now s) = DailyCreated n recs \<longrightarrow>
            fst (createDailyRecords now' (snd (createDailyRecords now s))) = DailyCreated 0 [] \<and>
            (\<forall>r\<in>set recs.
               recordsFor (r_customer r) (startOfDay now)
                 (snd (createDailyRecords now' (snd (createDailyRecords now s)))) = [r]) \<and>
            (\<forall>c\<in>set (customers s).
               c_isActive c \<and> recordsFor (c_id c) (startOfDay now) s = [] \<longrightarrow>
               (\<exists>r\<in>set recs. r_customer r = c_id c)))"
proof (cases "checkIfHoliday (startOfDay now) s")
  case (Some h)
  have "createDailyRecords now s = (DailyHoliday (h_name h) h, s)"
    using Some by (rule createDailyRecords_holiday)
  moreover have "createDailyRecords now' s = (DailyHoliday (h_name h) h, s)"
    using Some same createDailyRecords_holiday [of now' s h] by simp
  ultimately show ?thesis by simp
next
  case None
  let ?today = "startOfDay now"
  let ?cs = "filter c_isActive (customers s)"
  obtain res s1 where l: "dailyLoop ?today ?cs ([], s) = (res, s1)"
    by (cases "dailyLoop ?today ?cs ([], s)")
  note run1 = createDailyRecords_loop [OF None l]
  from dailyLoop_appends [OF l] obtain new where
    n: "s1 = s\<lparr>records := records s @ new\<rparr>"
      "\<forall>r\<in>set new. r_date r = ?today \<and> recordsFor (r_customer r) ?today s = []"
      "distinct (map r_customer new)"
      "\<forall>recs'. res = Inr recs' \<longrightarrow> recs' = [] @ new"
    by blast
  have hol: "checkIfHoliday (startOfDay now') s1 = None"
    using None same by (simp add: n(1) checkIfHoliday_records)
  have cs: "filter c_isActive (customers s1) = ?cs" by (simp add: n(1))
  obtain res2 s2 where l2: "dailyLoop ?today ?cs ([], s1) = (res2, s2)"
    by (cases "dailyLoop ?today ?cs ([], s1)")
  have "dailyLoop (startOfDay now') (filter c_isActive (customers s1)) ([], s1) = (res2, s2)"
    using l2 same cs by simp
  note run2 = createDailyRecords_loop [OF hol this]
  have "snd (dailyLoop ?today ?cs ([], snd (dailyLoop ?today ?cs ([], s)))) =
        snd (dailyLoop ?today ?cs ([], s))"
    by (rule dailyLoop_stable)
  then have s2: "s2 = s1" using l l2 by simp
  have stored: "snd (createDailyRecords now' (snd (createDailyRecords now s))) =
                snd (createDailyRecords now s)"
    using run1 run2 s2 by simp
  have created: "fst (createDailyRecords now' (snd (createDailyRecords now s))) = DailyCreated 0 [] \<and>
            (\<forall>r\<in>set recs.
               recordsFor (r_customer r) ?today
                 (snd (createDailyRecords now' (snd (createDailyRecords now s)))) = [r]) \<and>
            (\<forall>c\<in>set (customers s).
               c_isActive c \<and> recordsFor (c_id c) ?today s = [] \<longrightarrow>
               (\<exists>r\<in>set recs. r_customer r = c_id c))"
    if ok: "fst (createDailyRecords now s) = DailyCreated n recs"
  proof -
    from ok run1 have res: "res = Inr recs" by (cases res) simp_all
    with n(4) have recs: "recs = new" by simp
    from l res have "dailyLoop ?today ?cs ([], s) = (Inr recs, s1)" by simp
    then have af: "\<forall>c\<in>set ?cs.
        find (\<lambda>r. r_customer r = c_id c \<and> r_date r = ?today) (records s1) \<noteq> None"
      by (rule dailyLoop_all_found)
    then have "dailyLoop ?today ?cs ([], s1) = (Inr [], s1)"
      by (rule dailyLoop_nothing_to_do)
    with l2 have "res2 = Inr []" by simp
    with run1 run2 have r2: "fst (createDailyRecords now' (snd (createDailyRecords now s))) =
        DailyCreated 0 []"
      by simp
    have "recordsFor (r_customer r) ?today s1 = [r]" if r: "r \<in> set recs" for r
    proof -
      from r recs n(2) have old: "recordsFor (r_customer r) ?today s = []" by simp
      have "filter (\<lambda>y. r_customer y = r_customer r \<and> r_date y = ?today) new =
            filter (\<lambda>y. r_customer y = r_customer r) new"
        using n(2) by (intro filter_cong) auto
      also have "\<dots> = [r]"
        using n(3) r recs by (intro filter_distinct_key) simp_all
      finally show ?thesis using old by (simp add: recordsFor_def n(1))
    qed
    then have one: "\<forall>r\<in>set recs.
        recordsFor (r_customer r) ?today
          (snd (createDailyRecords now' (snd (createDailyRecords now s)))) = [r]"
      using stored run1 by simp
    have made: "\<exists>r\<in>set recs. r_customer r = c_id c"
      if c: "c \<in> set (customers s)" "c_isActive c" "recordsFor (c_id c) ?today s = []" for c
    proof -
      from c(1,2) have "c \<in> set ?cs" by simp
      with af obtain x where
        "find (\<lambda>r. r_customer r = c_id c \<and> r_date r = ?today) (records s1) = Some x"
        by blast
      note fx = find_Some_holds [OF this]
      from fx have x: "r_customer x = c_id c \<and> r_date x = ?today" "x \<in> set (records s1)"
        by simp_all
      from c(3) x(1) have "x \<notin> set (records s)"
        by (auto simp: recordsFor_def filter_empty_conv)
      with x(2) have "x \<in> set recs" by (simp add: n(1) recs)
      with x(1) show ?thesis by blast
    qed
    from made have "\<forall>c\<in>set (customers s).
        c_isActive c \<and> recordsFor (c_id c) ?today s = [] \<longrightarrow>
        (\<exists>r\<in>set recs. r_customer r = c_id c)"
      by simp
    with r2 one show ?thesis by (intro conjI)
  qed
  from stored created show ?thesis by blast
qed

theorem daily_records_second_run_witness:
  "startOfDay (ex_now + 3600000) = startOfDay ex_now \<and>
   customers ex_morning = [ex_customer] \<and> c_isActive ex_customer \<and>
   recordsFor (c_id ex_customer) (startOfDay ex_now) ex_morning = [] \<and>
   r_customer ex_daily = c_id ex_customer \<and>
   createDailyRecords ex_now ex_morning =
     (DailyCreated 1 [ex_daily], ex_morning\<lparr>records := [ex_daily]\<rparr>) \<and>
   snd (createDailyRecords (ex_now + 3600000) (snd (createDailyRecords ex_now ex_morning))) =
     ex_morning\<lparr>records := [ex_daily]\<rparr> \<and>
   fst (createDailyRecords (ex_now + 3600000) (snd (createDailyRecords ex_now ex_morning))) =
     DailyCreated 0 [] \<and>
   recordsFor 1 (startOfDay ex_now)
     (snd (createDailyRecords (ex_now + 3600000) (snd (createDailyRecords ex_now ex_morning)))) =
     [ex_daily]"
proof -
  have h: "startOfDay (ex_now + 3600000) = startOfDay ex_now"
    by code_simp
  have r1: "createDailyRecords ex_now ex_morning =
      (DailyCreated 1 [ex_daily], ex_morning\<lparr>records := [ex_daily]\<rparr>)"
    by code_simp
  have e: "r_customer ex_daily = 1" by code_simp
  have m: "customers ex_morning = [ex_customer]" "c_isActive ex_customer"
    "recordsFor (c_id ex_customer) (startOfDay ex_now) ex_morning = []"
    "r_customer ex_daily = c_id ex_customer"
    by code_simp+
  note t = daily_records_second_run [OF h, of ex_morning 1 "[ex_daily]"]
  have ok: "fst (createDailyRecords ex_now ex_morning) = DailyCreated 1 [ex_daily]"
    using r1 by simp
  from t have a: "snd (createDailyRecords (ex_now + 3600000)
                        (snd (createDailyRecords ex_now ex_morning))) =
                  snd (createDailyRecords ex_now ex_morning)"
    by blast
  from t ok have b: "fst (createDailyRecords (ex_now + 3600000)
                           (snd (createDailyRecords ex_now ex_morning))) = DailyCreated 0 []"
    by blast
  from t ok have "\<forall>r\<in>set [ex_daily].
      recordsFor (r_customer r) (startOfDay ex_now)
        (snd (createDailyRecords (ex_now + 3600000)
               (snd (createDailyRecords ex_now ex_morning)))) = [r]"
    by blast
  then have c: "recordsFor 1 (startOfDay ex_now)
      (snd (createDailyRecords (ex_now + 3600000)
             (snd (createDailyRecords ex_now ex_morning)))) = [ex_daily]"
    by (simp add: e)
  have d: "snd (createDailyRecords ex_now ex_morning) = ex_morning\<lparr>records := [ex_daily]\<rparr>"
    using r1 by simp
  from t ok have "\<forall>cu\<in>set (customers ex_morning).
      c_isActive cu \<and> recordsFor (c_id cu) (startOfDay ex_now) ex_morning = [] \<longrightarrow>
      (\<exists>r\<in>set [ex_daily]. r_customer r = c_id cu)"
    by blast
  show ?thesis using h r1 a b c d m by (intro conjI) simp_all
qed

text \<open>
  The claim as first stated has the second run report the record as already existing.
  Here the first run creates the record of the example customer; the second run, on
  the store that has it, answers exactly what a run over a store without any customer
  answers: success, count 0, no record and no mention of an existing one.
\<close>

theorem daily_second_run_reports_nothing:
  "createDailyRecords ex_now ex_morning =
     (DailyCreated 1 [ex_daily], ex_morning\<lparr>records := [ex_daily]\<rparr>) \<and>
   fst (createDailyRecords ex_now (ex_morning\<lparr>records := [ex_daily]\<rparr>)) = DailyCreated 0 [] \<and>
   fst (createDailyRecords ex_now (ex_morning\<lparr>customers := []\<rparr>)) = DailyCreated 0 []"
  by code_simp

end
